theory Spec2Isabelle
  imports Main
begin

section \<open>JavaScript strings\<close>

text \<open>
  Strings are lists of 8-bit characters. The two characters the bridge escapes are
  named, since neither can be written inside a string literal of the logic.
\<close>

abbreviation dquote :: char where "dquote \<equiv> CHR 0x22"
abbreviation backslash :: char where "backslash \<equiv> CHR 0x5C"
abbreviation LF :: char where "LF \<equiv> CHR 0x0A"
abbreviation CR :: char where "CR \<equiv> CHR 0x0D"

text \<open>\<^verbatim>\<open>a || b\<close> on strings: the empty string is the only falsy string.\<close>

definition or_else :: "string \<Rightarrow> string \<Rightarrow> string" where
  "or_else a b = (if a = [] then b else a)"

text \<open>\<^verbatim>\<open>s.includes(p)\<close>: \<open>p\<close> occurs in \<open>s\<close> as a contiguous substring.\<close>

fun starts_with :: "string \<Rightarrow> string \<Rightarrow> bool" where
  "starts_with s [] = True"
| "starts_with [] (p # ps) = False"
| "starts_with (c # cs) (p # ps) = (c = p \<and> starts_with cs ps)"

fun js_includes :: "string \<Rightarrow> string \<Rightarrow> bool" where
  "js_includes [] p = (p = [])"
| "js_includes (c # cs) p = (starts_with (c # cs) p \<or> js_includes cs p)"

text \<open>
  \<^verbatim>\<open>s.trim()\<close> removes white space and line terminators from both ends; these are
  the ones an 8-bit character can be.
\<close>

definition js_space :: "char \<Rightarrow> bool" where
  "js_space c = (c \<in> set [CHR 0x09, CHR 0x0A, CHR 0x0B, CHR 0x0C, CHR 0x0D, CHR 0x20, CHR 0xA0])"

definition trim :: "string \<Rightarrow> string" where
  "trim s = rev (dropWhile js_space (rev (dropWhile js_space s)))"

text \<open>
  \<^verbatim>\<open>s.replace(/c/g, r)\<close> for a pattern that matches the single character \<open>c\<close> and a
  replacement \<open>r\<close> without \<^verbatim>\<open>$\<close>: every occurrence of \<open>c\<close> becomes \<open>r\<close>, left to right.
\<close>

primrec replace_all :: "char \<Rightarrow> string \<Rightarrow> string \<Rightarrow> string" where
  "replace_all c r [] = []"
| "replace_all c r (x # xs) = (if x = c then r else [x]) @ replace_all c r xs"

text \<open>A number in a template literal: its decimal digits.\<close>

fun string_of_nat :: "nat \<Rightarrow> string" where
  "string_of_nat n =
     (if n < 10 then [char_of (48 + n)]
      else string_of_nat (n div 10) @ [char_of (48 + n mod 10)])"

text \<open>
  A multi-line template literal whose first line is empty: a line feed, then every line
  of the text followed by a line feed.
\<close>

definition template_text :: "string list \<Rightarrow> string" where
  "template_text ls = LF # concat (map (\<lambda>l. l @ [LF]) ls)"

section \<open>JSON.parse\<close>

text \<open>
  The bridge reads the child process's standard output with \<^verbatim>\<open>JSON.parse\<close>, which
  either returns a value or throws. The parser below accepts the JSON grammar (ECMA-404)
  and returns the syntax tree of the text: a number and a string are kept as they are
  written (a string's escapes are checked, not decoded), an object keeps its members in
  the order of the text. \<open>None\<close> is the thrown \<^verbatim>\<open>SyntaxError\<close>.
\<close>

datatype json = JNull | JBool bool | JNum string | JStr string
  | JArr "json list" | JObj "(string \<times> json) list"

datatype token = TLBrace | TRBrace | TLBrack | TRBrack | TColon | TComma
  | TAtom string | TStr string

datatype lex_mode = Idle | InAtom string | InStr string nat

definition json_ws :: "char \<Rightarrow> bool" where
  "json_ws c = (c = CHR 0x20 \<or> c = CHR 0x09 \<or> c = LF \<or> c = CR)"

definition punct :: "char \<Rightarrow> token option" where
  "punct c =
     (if c = CHR ''{'' then Some TLBrace else if c = CHR ''}'' then Some TRBrace
      else if c = CHR ''['' then Some TLBrack else if c = CHR '']'' then Some TRBrack
      else if c = CHR '':'' then Some TColon else if c = CHR '','' then Some TComma
      else None)"

definition is_digit :: "char \<Rightarrow> bool" where
  "is_digit c = (c \<in> set ''0123456789'')"

definition is_hex :: "char \<Rightarrow> bool" where
  "is_hex c = (c \<in> set ''0123456789abcdefABCDEF'')"

text \<open>
  The lexer reads one character at a time. Inside a string the counter is 0 outside an
  escape, 1 after a backslash, and 2 to 5 while one to four hexadecimal digits of a
  \<^verbatim>\<open>\u\<close> escape are still to come. The text collected so far is kept reversed.
\<close>

definition lex_step :: "lex_mode \<Rightarrow> char \<Rightarrow> (lex_mode \<times> token list) option" where
  "lex_step m c = (case m of
      Idle \<Rightarrow>
        (if json_ws c then Some (Idle, [])
         else if c = dquote then Some (InStr [] 0, [])
         else (case punct c of Some t \<Rightarrow> Some (Idle, [t]) | None \<Rightarrow> Some (InAtom [c], [])))
    | InAtom a \<Rightarrow>
        (if json_ws c then Some (Idle, [TAtom (rev a)])
         else if c = dquote then Some (InStr [] 0, [TAtom (rev a)])
         else (case punct c of Some t \<Rightarrow> Some (Idle, [TAtom (rev a), t])
               | None \<Rightarrow> Some (InAtom (c # a), [])))
    | InStr s k \<Rightarrow>
        (if k = 0 then
           (if c = dquote then Some (Idle, [TStr (rev s)])
            else if c = backslash then Some (InStr (c # s) 1, [])
            else if of_char c < (32::nat) then None
            else Some (InStr (c # s) 0, []))
         else if k = 1 then
           (if c = CHR ''u'' then Some (InStr (c # s) 5, [])
            else if c \<in> set [dquote, backslash, CHR ''/'', CHR ''b'', CHR ''f'', CHR ''n'',
                             CHR ''r'', CHR ''t'']
            then Some (InStr (c # s) 0, [])
            else None)
         else
           (if is_hex c then Some (InStr (c # s) (if k = 2 then 0 else k - 1), [])
            else None)))"

fun lex :: "lex_mode \<Rightarrow> string \<Rightarrow> token list option" where
  "lex m [] = (case m of Idle \<Rightarrow> Some [] | InAtom a \<Rightarrow> Some [TAtom (rev a)]
                | InStr s k \<Rightarrow> None)"
| "lex m (c # cs) = (case lex_step m c of None \<Rightarrow> None
     | Some (m', out) \<Rightarrow> map_option ((@) out) (lex m' cs))"

text \<open>
  A number is \<^verbatim>\<open>-?(0|[1-9][0-9]*)(\.[0-9]+)?([eE][+-]?[0-9]+)?\<close>.
\<close>

definition valid_exp :: "string \<Rightarrow> bool" where
  "valid_exp s = (case s of [] \<Rightarrow> True
     | e # r \<Rightarrow> (e = CHR ''e'' \<or> e = CHR ''E'') \<and>
         (let r' = (case r of [] \<Rightarrow> []
                    | g # r'' \<Rightarrow> if g = CHR ''+'' \<or> g = CHR ''-'' then r'' else r)
          in r' \<noteq> [] \<and> list_all is_digit r'))"

definition valid_frac :: "string \<Rightarrow> bool" where
  "valid_frac s = (case s of [] \<Rightarrow> True
     | p # r \<Rightarrow> if p = CHR ''.''
                then takeWhile is_digit r \<noteq> [] \<and> valid_exp (dropWhile is_digit r)
                else valid_exp s)"

definition valid_number :: "string \<Rightarrow> bool" where
  "valid_number s =
     (let u = (case s of [] \<Rightarrow> [] | g # r \<Rightarrow> if g = CHR ''-'' then r else s);
          ds = takeWhile is_digit u
      in ds \<noteq> [] \<and> (if hd ds = CHR ''0'' then length ds = 1 else True)
           \<and> valid_frac (dropWhile is_digit u))"

definition atom_value :: "string \<Rightarrow> json option" where
  "atom_value a =
     (if a = ''null'' then Some JNull
      else if a = ''true'' then Some (JBool True)
      else if a = ''false'' then Some (JBool False)
      else if valid_number a then Some (JNum a)
      else None)"

definition scalar :: "token \<Rightarrow> json option" where
  "scalar t = (case t of TAtom a \<Rightarrow> atom_value a | TStr s \<Rightarrow> Some (JStr s) | _ \<Rightarrow> None)"

text \<open>
  The parser is a pushdown automaton over the tokens. A frame is an array with the
  elements read so far, an object waiting for a key, or an object waiting for the value
  of a key (all reversed). \<open>WantValue True\<close> and \<open>WantKey True\<close> stand right after the
  opening bracket, where the closing one is allowed too.
\<close>

datatype frame = FArr "json list" | FKey "(string \<times> json) list"
  | FVal "(string \<times> json) list" string

datatype pstate = WantValue bool | WantKey bool | WantColon | Done json

definition pstep :: "pstate \<Rightarrow> frame list \<Rightarrow> token \<Rightarrow> (pstate \<times> frame list) option" where
  "pstep p st t = (case p of
      WantValue first \<Rightarrow>
        (case t of
           TLBrack \<Rightarrow> Some (WantValue True, FArr [] # st)
         | TLBrace \<Rightarrow> Some (WantKey True, FKey [] # st)
         | TRBrack \<Rightarrow>
             (case st of FArr [] # st' \<Rightarrow> if first then Some (Done (JArr []), st') else None
              | _ \<Rightarrow> None)
         | _ \<Rightarrow> map_option (\<lambda>v. (Done v, st)) (scalar t))
    | WantKey first \<Rightarrow>
        (case (t, st) of
           (TStr k, FKey ms # st') \<Rightarrow> Some (WantColon, FVal ms k # st')
         | (TRBrace, FKey ms # st') \<Rightarrow>
             if first then Some (Done (JObj (rev ms)), st') else None
         | _ \<Rightarrow> None)
    | WantColon \<Rightarrow> (case t of TColon \<Rightarrow> Some (WantValue False, st) | _ \<Rightarrow> None)
    | Done v \<Rightarrow>
        (case (t, st) of
           (TComma, FArr vs # st') \<Rightarrow> Some (WantValue False, FArr (v # vs) # st')
         | (TRBrack, FArr vs # st') \<Rightarrow> Some (Done (JArr (rev (v # vs))), st')
         | (TComma, FVal ms k # st') \<Rightarrow> Some (WantKey False, FKey ((k, v) # ms) # st')
         | (TRBrace, FVal ms k # st') \<Rightarrow> Some (Done (JObj (rev ((k, v) # ms))), st')
         | _ \<Rightarrow> None))"

fun pda :: "pstate \<Rightarrow> frame list \<Rightarrow> token list \<Rightarrow> json option" where
  "pda p st [] = (case (p, st) of (Done v, []) \<Rightarrow> Some v | _ \<Rightarrow> None)"
| "pda p st (t # ts) = (case pstep p st t of None \<Rightarrow> None
     | Some (p', st') \<Rightarrow> pda p' st' ts)"

definition JSON_parse :: "string \<Rightarrow> json option" where
  "JSON_parse s = (case lex Idle s of None \<Rightarrow> None
     | Some ts \<Rightarrow> pda (WantValue False) [] ts)"

text \<open>
  \<^verbatim>\<open>if (v)\<close>: \<^verbatim>\<open>null\<close>, \<^verbatim>\<open>false\<close>, zero and the empty string are falsy; every
  array and every object is truthy, the empty ones too. A number is zero when no digit
  of its mantissa is other than 0 (a number that is too small for a double and rounds
  to zero is not told apart here).
\<close>

definition zero_number :: "string \<Rightarrow> bool" where
  "zero_number s =
     list_all (\<lambda>c. c \<notin> set ''123456789'')
       (takeWhile (\<lambda>c. c \<noteq> CHR ''e'' \<and> c \<noteq> CHR ''E'') s)"

fun truthy :: "json \<Rightarrow> bool" where
  "truthy JNull = False"
| "truthy (JBool b) = b"
| "truthy (JNum s) = (\<not> zero_number s)"
| "truthy (JStr s) = (s \<noteq> [])"
| "truthy (JArr vs) = True"
| "truthy (JObj ms) = True"

text \<open>
  \<^verbatim>\<open>JSON.stringify\<close> on such a tree: no white space, members in order.
\<close>

fun join_comma :: "string list \<Rightarrow> string" where
  "join_comma [] = []"
| "join_comma [x] = x"
| "join_comma (x # y # ys) = x @ '','' @ join_comma (y # ys)"

fun JSON_stringify :: "json \<Rightarrow> string" where
  "JSON_stringify JNull = ''null''"
| "JSON_stringify (JBool b) = (if b then ''true'' else ''false'')"
| "JSON_stringify (JNum s) = s"
| "JSON_stringify (JStr s) = dquote # s @ [dquote]"
| "JSON_stringify (JArr vs) = ''['' @ join_comma (map JSON_stringify vs) @ '']''"
| "JSON_stringify (JObj ms) =
     ''{'' @ join_comma (map (\<lambda>m. dquote # fst m @ [dquote] @ '':'' @ JSON_stringify (snd m)) ms)
       @ ''}''"

section \<open>The JDBC bridge (db/connection.js)\<close>

text \<open>
  A thrown \<^verbatim>\<open>Error\<close> carries its message; a \<^verbatim>\<open>ServiceError\<close> its message, details and
  code (the time it was made is left out).
\<close>

datatype error = Error string | ServiceError string string string

fun message :: "error \<Rightarrow> string" where
  "message (Error m) = m"
| "message (ServiceError m d c) = m"

record config =
  host :: string
  port :: nat
  database :: string
  user :: string
  password :: string
  server :: string

text \<open>
  What a child process leaves when it closes: the exit code (\<^verbatim>\<open>null\<close>, here \<open>None\<close>, when
  a signal ended it) and the text collected from its two output streams.
\<close>

record proc =
  exit_code :: "int option"
  stdout :: string
  stderr :: string

text \<open>
  The environment of the bridge: the configuration, \<^verbatim>\<open>os.tmpdir()\<close>, whether
  \<^verbatim>\<open>java -version\<close> runs, and what the compiler and the program of the bridge call
  number \<open>k\<close> leave when they close.
\<close>

record env =
  cfg :: config
  tmpdir :: string
  java_installed :: bool
  javac_close :: "nat \<Rightarrow> proc"
  java_close :: "nat \<Rightarrow> proc"

text \<open>
  The connection object, with the two parts of the world it acts on: the files of the
  temporary directory (path to content) and the number of bridge calls made so far,
  which selects the child processes' outcomes in the environment.
\<close>

record connection =
  isInitialized :: bool
  jdbcUrl :: "string option"
  files :: "string \<rightharpoonup> string"
  calls :: nat

definition buildJdbcUrl :: "config \<Rightarrow> string" where
  "buildJdbcUrl c =
     ''jdbc:informix-sqli://'' @ host c @ '':'' @ string_of_nat (port c) @ ''/'' @ database c
       @ '':INFORMIXSERVER='' @ server c"

text \<open>\<^verbatim>\<open>path.join(dir, name)\<close> for a directory without a trailing separator.\<close>

definition path_join :: "string \<Rightarrow> string \<Rightarrow> string" where
  "path_join dir name = dir @ ''/'' @ name"

text \<open>\<^verbatim>\<open>${this.jdbcUrl}\<close>: a url that was never built prints as \<^verbatim>\<open>null\<close>.\<close>

definition url_text :: "string option \<Rightarrow> string" where
  "url_text u = (case u of None \<Rightarrow> ''null'' | Some s \<Rightarrow> s)"

text \<open>
  The escaping of the statement for the program text: every backslash is doubled, then
  every double quote gets a backslash.
\<close>

definition escapedSql :: "string \<Rightarrow> string" where
  "escapedSql sql =
     replace_all dquote [backslash, dquote] (replace_all backslash [backslash, backslash] sql)"

definition queryJavaCode :: "string \<Rightarrow> string \<Rightarrow> string \<Rightarrow> string \<Rightarrow> string" where
  \<open>queryJavaCode url usr pwd stmt = template_text
    [''import java.sql.*;'',
     '''',
     ''public class InformixQuery {'',
     ''    public static void main(String[] args) {'',
     ''        try {'',
     ''            Class.forName("com.informix.jdbc.IfxDriver");'',
     ''            Connection conn = DriverManager.getConnection('',
     ''                "'' @ url @ ''",'',
     ''                "'' @ usr @ ''",'',
     ''                "'' @ pwd @ ''"'',
     ''            );'',
     ''            Statement stmt = conn.createStatement();'',
     ''            ResultSet rs = stmt.executeQuery("'' @ stmt @ ''");'',
     ''            ResultSetMetaData meta = rs.getMetaData();'',
     ''            int cols = meta.getColumnCount();'',
     ''            StringBuilder sb = new StringBuilder("[");'',
     ''            boolean first = true;'',
     ''            while (rs.next()) {'',
     ''                if (!first) sb.append(",");'',
     ''                first = false;'',
     ''                sb.append("{");'',
     ''                for (int i = 1; i <= cols; i++) {'',
     ''                    if (i > 1) sb.append(",");'',
     ''                    String name = meta.getColumnName(i);'',
     ''                    String val = rs.getString(i);'',
     ''                    sb.append("'' @ [backslash] @ ''"").append(name).append("'' @ [backslash] @ ''":");'',
     ''                    if (val == null) {'',
     ''                        sb.append("null");'',
     ''                    } else {'',
     ''                        sb.append("'' @ [backslash] @ ''"").append(val.replace("'' @ [backslash] @ [backslash] @ ''", "'' @ [backslash] @ [backslash] @ [backslash] @ [backslash] @ ''").replace("'' @ [backslash] @ ''"", "'' @ [backslash] @ [backslash] @ [backslash] @ ''"")).append("'' @ [backslash] @ ''"");'',
     ''                    }'',
     ''                }'',
     ''                sb.append("}");'',
     ''            }'',
     ''            sb.append("]");'',
     ''            System.out.println(sb.toString());'',
     ''            rs.close();'',
     ''            stmt.close();'',
     ''            conn.close();'',
     ''        } catch (Exception e) {'',
     ''            System.err.println("ERROR: " + e.getMessage());'',
     ''            System.exit(1);'',
     ''        }'',
     ''    }'',
     ''}'']\<close>

definition executeJavaCode :: "string \<Rightarrow> string \<Rightarrow> string \<Rightarrow> string \<Rightarrow> string" where
  \<open>executeJavaCode url usr pwd stmt = template_text
    [''import java.sql.*;'',
     '''',
     ''public class InformixExecute {'',
     ''    public static void main(String[] args) {'',
     ''        try {'',
     ''            Class.forName("com.informix.jdbc.IfxDriver");'',
     ''            Connection conn = DriverManager.getConnection('',
     ''                "'' @ url @ ''",'',
     ''                "'' @ usr @ ''",'',
     ''                "'' @ pwd @ ''"'',
     ''            );'',
     ''            Statement stmt = conn.createStatement();'',
     ''            int rowsAffected = stmt.executeUpdate("'' @ stmt @ ''");'',
     ''            System.out.println("{'' @ [backslash] @ ''"rowsAffected'' @ [backslash] @ ''":" + rowsAffected + ",'' @ [backslash] @ ''"success'' @ [backslash] @ ''":true}");'',
     ''            stmt.close();'',
     ''            conn.close();'',
     ''        } catch (Exception e) {'',
     ''            System.err.println("ERROR: " + e.getMessage());'',
     ''            System.exit(1);'',
     ''        }'',
     ''    }'',
     ''}'']\<close>

text \<open>
  \<^verbatim>\<open>fs.unlinkSync\<close> throws when the file is not there. The cleanup is one \<^verbatim>\<open>try\<close> block
  with an empty \<^verbatim>\<open>catch\<close>: a failure of the first removal skips the second.
\<close>

datatype fs_error = ENOENT

definition unlinkSync :: "string \<Rightarrow> (string \<rightharpoonup> string) \<Rightarrow> fs_error + (string \<rightharpoonup> string)" where
  "unlinkSync p fs = (if fs p = None then Inl ENOENT else Inr (fs(p := None)))"

definition cleanup :: "string \<Rightarrow> string \<Rightarrow> (string \<rightharpoonup> string) \<Rightarrow> (string \<rightharpoonup> string)" where
  "cleanup javaFile classFile fs =
     (case unlinkSync javaFile fs of
        Inl e \<Rightarrow> fs
      | Inr fs1 \<Rightarrow> (case unlinkSync classFile fs1 of Inl e \<Rightarrow> fs1 | Inr fs2 \<Rightarrow> fs2))"

text \<open>
  The compiler writes the class file beside the source when it exits with 0, and
  nothing otherwise.
\<close>

definition javac_effect :: "proc \<Rightarrow> string \<Rightarrow> (string \<rightharpoonup> string) \<Rightarrow> (string \<rightharpoonup> string)" where
  "javac_effect p classFile fs =
     (if exit_code p = Some 0 then fs(classFile \<mapsto> ''class'') else fs)"

subsection \<open>simpleQuery\<close>

text \<open>
  A call runs in three steps of the event loop: the synchronous part that writes the
  source file and starts the compiler, the handler of the compiler's \<^verbatim>\<open>close\<close>, and
  the handler of the program's \<^verbatim>\<open>close\<close>. Both child processes are taken to start and
  to close: the code has no handler for a process that cannot be started.
\<close>

definition simpleQuery_javaFile :: "env \<Rightarrow> string" where
  "simpleQuery_javaFile e = path_join (tmpdir e) ''InformixQuery.java''"

definition simpleQuery_classFile :: "env \<Rightarrow> string" where
  "simpleQuery_classFile e = path_join (tmpdir e) ''InformixQuery.class''"

definition simpleQuery_start :: "env \<Rightarrow> string \<Rightarrow> connection \<Rightarrow> connection" where
  "simpleQuery_start e sql c =
     (let javaFile = simpleQuery_javaFile e;
          javaCode = queryJavaCode (url_text (jdbcUrl c)) (user (cfg e)) (password (cfg e))
                       (escapedSql sql)
      in c\<lparr>files := (files c)(javaFile \<mapsto> javaCode), calls := Suc (calls c)\<rparr>)"

definition simpleQuery_run_close :: "env \<Rightarrow> proc \<Rightarrow> connection \<Rightarrow> (error + json) \<times> connection" where
  "simpleQuery_run_close e run c =
     (let c' = c\<lparr>files := cleanup (simpleQuery_javaFile e) (simpleQuery_classFile e) (files c)\<rparr>
      in if exit_code run \<noteq> Some 0 \<or> js_includes (stderr run) ''ERROR:''
         then (Inl (Error (or_else (stderr run) ''Query failed'')), c')
         else (case JSON_parse (or_else (trim (stdout run)) ''[]'') of
                 Some v \<Rightarrow> (Inr v, c')
               | None \<Rightarrow> (Inl (Error ''Failed to parse results''), c')))"

definition simpleQuery_compile_close ::
  "env \<Rightarrow> proc \<Rightarrow> proc \<Rightarrow> connection \<Rightarrow> (error + json) \<times> connection" where
  "simpleQuery_compile_close e compile run c =
     (let c' = c\<lparr>files := javac_effect compile (simpleQuery_classFile e) (files c)\<rparr>
      in if exit_code compile \<noteq> Some 0
         then (Inl (Error (''Compilation failed: '' @ stderr compile)), c')
         else simpleQuery_run_close e run c')"

definition simpleQuery :: "env \<Rightarrow> string \<Rightarrow> connection \<Rightarrow> (error + json) \<times> connection" where
  "simpleQuery e sql c =
     simpleQuery_compile_close e (javac_close e (calls c)) (java_close e (calls c))
       (simpleQuery_start e sql c)"

subsection \<open>execute\<close>

definition execute_javaFile :: "env \<Rightarrow> string" where
  "execute_javaFile e = path_join (tmpdir e) ''InformixExecute.java''"

definition execute_classFile :: "env \<Rightarrow> string" where
  "execute_classFile e = path_join (tmpdir e) ''InformixExecute.class''"

definition execute_start :: "env \<Rightarrow> string \<Rightarrow> connection \<Rightarrow> connection" where
  "execute_start e sql c =
     (let javaFile = execute_javaFile e;
          javaCode = executeJavaCode (url_text (jdbcUrl c)) (user (cfg e)) (password (cfg e))
                       (escapedSql sql)
      in c\<lparr>files := (files c)(javaFile \<mapsto> javaCode), calls := Suc (calls c)\<rparr>)"

text \<open>
  The text parsed in place of an empty output, and the object
  \<^verbatim>\<open>{ rowsAffected: 0, success: true }\<close> resolved when the output does not parse.
\<close>

definition default_outcome_text :: string where
  \<open>default_outcome_text = ''{"rowsAffected":0,"success":true}''\<close>

definition no_rows_affected :: json where
  "no_rows_affected = JObj [(''rowsAffected'', JNum ''0''), (''success'', JBool True)]"

definition execute_run_close :: "env \<Rightarrow> proc \<Rightarrow> connection \<Rightarrow> (error + json) \<times> connection" where
  "execute_run_close e run c =
     (let c' = c\<lparr>files := cleanup (execute_javaFile e) (execute_classFile e) (files c)\<rparr>
      in if exit_code run \<noteq> Some 0 \<or> js_includes (stderr run) ''ERROR:''
         then (Inl (Error (or_else (stderr run) ''Execute failed'')), c')
         else (case JSON_parse (or_else (trim (stdout run)) default_outcome_text) of
                 Some v \<Rightarrow> (Inr v, c')
               | None \<Rightarrow> (Inr no_rows_affected, c')))"

definition execute_compile_close ::
  "env \<Rightarrow> proc \<Rightarrow> proc \<Rightarrow> connection \<Rightarrow> (error + json) \<times> connection" where
  "execute_compile_close e compile run c =
     (let c' = c\<lparr>files := javac_effect compile (execute_classFile e) (files c)\<rparr>
      in if exit_code compile \<noteq> Some 0
         then (Inl (Error (''Compilation failed: '' @ stderr compile)), c')
         else execute_run_close e run c')"

definition execute :: "env \<Rightarrow> string \<Rightarrow> connection \<Rightarrow> (error + json) \<times> connection" where
  "execute e sql c =
     execute_compile_close e (javac_close e (calls c)) (java_close e (calls c))
       (execute_start e sql c)"

subsection \<open>initialize\<close>

definition testConnection :: "env \<Rightarrow> connection \<Rightarrow> (error + bool) \<times> connection" where
  "testConnection e c =
     (case simpleQuery e ''SELECT FIRST 1 1 FROM systables'' c of
        (Inr v, c') \<Rightarrow> (Inr True, c')
      | (Inl err, c') \<Rightarrow> (Inl (Error (''Connection test failed: '' @ message err)), c'))"

definition initialize :: "env \<Rightarrow> connection \<Rightarrow> (error + unit) \<times> connection" where
  "initialize e c =
     (if isInitialized c then (Inr (), c)
      else
        let c1 = c\<lparr>jdbcUrl := Some (buildJdbcUrl (cfg e))\<rparr>
        in if \<not> java_installed e then (Inl (Error ''Java is not installed or not in PATH''), c1)
           else (case testConnection e c1 of
                   (Inl err, c2) \<Rightarrow> (Inl err, c2)
                 | (Inr v, c2) \<Rightarrow> (Inr (), c2\<lparr>isInitialized := True\<rparr>)))"

section \<open>The service layer (services/DatabaseService.js)\<close>

record cache_entry =
  data :: json
  timestamp :: int

record service =
  cache :: "string \<rightharpoonup> cache_entry"
  cacheTimeout :: int
  initialized :: bool
  db :: connection

text \<open>The options of a query; \<open>None\<close> is a property left out, which takes its default.\<close>

record options =
  useCache :: "json option"
  cacheTtl :: "int option"

definition getCacheKey :: "string \<Rightarrow> json \<Rightarrow> string" where
  "getCacheKey sql params = sql @ '':'' @ JSON_stringify params"

text \<open>
  \<open>now\<close> is the reading of \<^verbatim>\<open>Date.now()\<close>. A miss returns \<^verbatim>\<open>null\<close> and deletes the key,
  whether or not it was there.
\<close>

definition getFromCache :: "string \<Rightarrow> int \<Rightarrow> service \<Rightarrow> json \<times> service" where
  "getFromCache key now s =
     (case cache s key of
        Some cached \<Rightarrow>
          if now - timestamp cached < cacheTimeout s then (data cached, s)
          else (JNull, s\<lparr>cache := (cache s)(key := None)\<rparr>)
      | None \<Rightarrow> (JNull, s\<lparr>cache := (cache s)(key := None)\<rparr>))"

definition setCache :: "string \<Rightarrow> json \<Rightarrow> int \<Rightarrow> service \<Rightarrow> service" where
  "setCache key d now s = s\<lparr>cache := (cache s)(key \<mapsto> \<lparr>data = d, timestamp = now\<rparr>)\<rparr>"

text \<open>\<^verbatim>\<open>if (key)\<close>: an empty key is falsy and clears everything, as no key does.\<close>

definition clearCache :: "string option \<Rightarrow> service \<Rightarrow> service" where
  "clearCache key s =
     (case key of
        Some k \<Rightarrow> if k \<noteq> [] then s\<lparr>cache := (cache s)(k := None)\<rparr> else s\<lparr>cache := Map.empty\<rparr>
      | None \<Rightarrow> s\<lparr>cache := Map.empty\<rparr>)"

definition init :: "env \<Rightarrow> service \<Rightarrow> (error + unit) \<times> service" where
  "init e s =
     (if initialized s then (Inr (), s)
      else (case initialize e (db s) of
              (Inl err, d) \<Rightarrow> (Inl err, s\<lparr>db := d\<rparr>)
            | (Inr u, d) \<Rightarrow> (Inr (), s\<lparr>db := d, initialized := True\<rparr>)))"

text \<open>
  \<open>query\<close> returns the pair of \<^verbatim>\<open>data\<close> and \<^verbatim>\<open>fromCache\<close>. \<open>tg\<close> is the clock when the cache
  is read and \<open>ts\<close> the clock when the result is stored, after the bridge has answered.
  An error of \<open>init\<close> is thrown as it is; an error of the bridge is wrapped.
\<close>

definition query_bridge ::
  "env \<Rightarrow> string \<Rightarrow> bool \<Rightarrow> string \<Rightarrow> int \<Rightarrow> service \<Rightarrow> (error + json \<times> bool) \<times> service" where
  "query_bridge e sql use cacheKey ts s =
     (case simpleQuery e sql (db s) of
        (Inr d, c) \<Rightarrow>
          let s1 = s\<lparr>db := c\<rparr>
          in (Inr (d, False), if use then setCache cacheKey d ts s1 else s1)
      | (Inl err, c) \<Rightarrow>
          (Inl (ServiceError ''Query failed'' (message err) ''QUERY_ERROR''), s\<lparr>db := c\<rparr>))"

definition query ::
  "env \<Rightarrow> string \<Rightarrow> json \<Rightarrow> options \<Rightarrow> int \<Rightarrow> int \<Rightarrow> service \<Rightarrow> (error + json \<times> bool) \<times> service" where
  "query e sql params opts tg ts s0 =
     (case init e s0 of
        (Inl err, s) \<Rightarrow> (Inl err, s)
      | (Inr u, s) \<Rightarrow>
          let use = (case useCache opts of None \<Rightarrow> True | Some v \<Rightarrow> truthy v);
              ttl = (case cacheTtl opts of None \<Rightarrow> cacheTimeout s | Some t \<Rightarrow> t);
              cacheKey = getCacheKey sql params
          in if use
             then (case getFromCache cacheKey tg s of
                     (cached, s') \<Rightarrow>
                       if truthy cached then (Inr (cached, True), s')
                       else query_bridge e sql use cacheKey ts s')
             else query_bridge e sql use cacheKey ts s)"

text \<open>The service's \<^verbatim>\<open>execute\<close>; it returns \<^verbatim>\<open>{ success: true, result }\<close>.\<close>

definition DatabaseService_execute :: "env \<Rightarrow> string \<Rightarrow> service \<Rightarrow> (error + json) \<times> service" where
  "DatabaseService_execute e sql s0 =
     (case init e s0 of
        (Inl err, s) \<Rightarrow> (Inl err, s)
      | (Inr u, s) \<Rightarrow>
          (case execute e sql (db s) of
             (Inr result, c) \<Rightarrow>
               (Inr (JObj [(''success'', JBool True), (''result'', result)]),
                clearCache None (s\<lparr>db := c\<rparr>))
           | (Inl err, c) \<Rightarrow>
               (Inl (ServiceError ''Execute failed'' (message err) ''EXECUTE_ERROR''),
                s\<lparr>db := c\<rparr>)))"

text \<open>Consecutive calls of the same query, one pair of clock readings for each.\<close>

fun queries ::
  "env \<Rightarrow> string \<Rightarrow> json \<Rightarrow> options \<Rightarrow> (int \<times> int) list \<Rightarrow> service
     \<Rightarrow> (error + json \<times> bool) list \<times> service" where
  "queries e sql params opts [] s = ([], s)"
| "queries e sql params opts ((tg, ts) # rest) s =
     (case query e sql params opts tg ts s of
        (r, s1) \<Rightarrow> (case queries e sql params opts rest s1 of (rs, s2) \<Rightarrow> (r # rs, s2)))"

section \<open>String literals of the generated program\<close>

text \<open>
  The generated program is compiled by the Java compiler of the image (Java 11). Its
  lexer first translates Unicode escapes (JLS 3.3): a backslash preceded by an even
  number of backslashes and followed by one or more \<^verbatim>\<open>u\<close> must be followed by four
  hexadecimal digits and stands for that code unit. The flag says that the number of
  backslashes right before the position is odd. Characters are code units from here on;
  the compiler is taken to read the file in the encoding it was written in.
\<close>

definition hex_value :: "char \<Rightarrow> nat" where
  "hex_value c =
     (let n = of_char c
      in if 48 \<le> n \<and> n \<le> 57 then n - 48
         else if 97 \<le> n \<and> n \<le> 102 then n - 87
         else n - 55)"

definition hex4 :: "string \<Rightarrow> nat" where
  "hex4 ds = foldl (\<lambda>a d. 16 * a + hex_value d) 0 ds"

function java_unicode :: "bool \<Rightarrow> string \<Rightarrow> nat list option" where
  "java_unicode esc [] = Some []"
| "java_unicode esc (c # cs) =
     (if c = backslash then
        (if \<not> esc \<and> starts_with cs ''u'' then
           (let r = dropWhile (\<lambda>x. x = CHR ''u'') cs
            in if 4 \<le> length r \<and> list_all is_hex (take 4 r)
               then map_option (Cons (hex4 (take 4 r))) (java_unicode False (drop 4 r))
               else None)
         else map_option (Cons 92) (java_unicode (\<not> esc) cs))
      else map_option (Cons (of_char c)) (java_unicode False cs))"
  by pat_completeness auto
termination
  by (relation "measure (\<lambda>(b, s). length s)")
     (auto intro: le_imp_less_Suc le_trans [OF diff_le_self length_dropWhile_le])

text \<open>
  Then the characters between the two double quotes of a string literal (JLS 3.10.5 and
  3.10.6): no double quote, no line terminator, and a backslash only as the start of
  an escape sequence. The result is the string the literal denotes, \<open>None\<close> when the
  characters are not the body of one string literal.
\<close>

definition simple_escape :: "nat \<Rightarrow> nat option" where
  "simple_escape d =
     (if d = 98 then Some 8 else if d = 116 then Some 9 else if d = 110 then Some 10
      else if d = 102 then Some 12 else if d = 114 then Some 13 else if d = 34 then Some 34
      else if d = 39 then Some 39 else if d = 92 then Some 92 else None)"

definition octal :: "nat \<Rightarrow> bool" where
  "octal d = (48 \<le> d \<and> d \<le> 55)"

fun java_string_chars :: "nat list \<Rightarrow> nat list option" where
  "java_string_chars [] = Some []"
| "java_string_chars (c # cs) =
     (if c = 34 \<or> c = 10 \<or> c = 13 then None
      else if c \<noteq> 92 then map_option (Cons c) (java_string_chars cs)
      else (case cs of
              [] \<Rightarrow> None
            | d # ds \<Rightarrow>
                if \<not> octal d
                then (case simple_escape d of
                        None \<Rightarrow> None
                      | Some v \<Rightarrow> map_option (Cons v) (java_string_chars ds))
                else (case ds of
                        [] \<Rightarrow> map_option (Cons (d - 48)) (java_string_chars ds)
                      | d2 # ds2 \<Rightarrow>
                          if \<not> octal d2
                          then map_option (Cons (d - 48)) (java_string_chars ds)
                          else (case ds2 of
                                  [] \<Rightarrow> map_option (Cons (8 * (d - 48) + (d2 - 48)))
                                         (java_string_chars ds2)
                                | d3 # ds3 \<Rightarrow>
                                    if d \<le> 51 \<and> octal d3
                                    then map_option
                                           (Cons (64 * (d - 48) + 8 * (d2 - 48) + (d3 - 48)))
                                           (java_string_chars ds3)
                                    else map_option (Cons (8 * (d - 48) + (d2 - 48)))
                                           (java_string_chars ds2)))))"

definition java_string_literal :: "string \<Rightarrow> nat list option" where
  "java_string_literal body =
     (case java_unicode False body of None \<Rightarrow> None | Some us \<Rightarrow> java_string_chars us)"

section \<open>Example values\<close>

definition example_config :: config where
  "example_config =
     \<lparr>host = ''localhost'', port = 9088, database = ''presa'', user = ''informix'',
      password = ''secret'', server = ''ol_informix''\<rparr>"

text \<open>An environment in which every compiler run and every program run ends the same way.\<close>

definition example_env :: "proc \<Rightarrow> proc \<Rightarrow> env" where
  "example_env compile run =
     \<lparr>cfg = example_config, tmpdir = ''/tmp'', java_installed = True,
      javac_close = (\<lambda>k. compile), java_close = (\<lambda>k. run)\<rparr>"

definition exited :: "int \<Rightarrow> string \<Rightarrow> string \<Rightarrow> proc" where
  "exited n out err = \<lparr>exit_code = Some n, stdout = out, stderr = err\<rparr>"

definition example_connection :: connection where
  "example_connection =
     \<lparr>isInitialized = True, jdbcUrl = Some (buildJdbcUrl example_config), files = Map.empty,
      calls = 0\<rparr>"

text \<open>A started service with an empty cache, and one that cached a row for \<^verbatim>\<open>Q\<close> at time 0.\<close>

definition example_service :: service where
  "example_service =
     \<lparr>cache = Map.empty, cacheTimeout = 60000, initialized = True, db = example_connection\<rparr>"

definition example_rows :: json where
  "example_rows = JArr [JObj [(''tabname'', JStr ''customer'')]]"

definition example_cached :: service where
  "example_cached =
     example_service\<lparr>cache := [''Q:[]'' \<mapsto> \<lparr>data = example_rows, timestamp = 0\<rparr>]\<rparr>"

text \<open>
  Outputs of a program that ended with exit code 0 after something else had been
  written to its standard output before the result.
\<close>

definition example_noisy_update :: string where
  \<open>example_noisy_update =
     ''Informix JDBC trace on'' @ [LF] @ ''{"rowsAffected":3,"success":true}'' @ [LF]\<close>

definition example_noisy_rows :: string where
  \<open>example_noisy_rows =
     ''Informix JDBC trace on'' @ [LF] @ ''[{"tabname":"customer"}]'' @ [LF]\<close>

definition example_rows_output :: string where
  \<open>example_rows_output = ''[{"tabname":"customer"}]'' @ [LF]\<close>

text \<open>
  The statement of the route \<^verbatim>\<open>/tables/:tableName/columns\<close> for the table
  \<^verbatim>\<open>customer\<close>: a template literal of four lines.
\<close>

definition example_columns_statement :: string where
  "example_columns_statement =
     ''SELECT c.colname, c.coltype, c.collength '' @ [LF] @
     ''       FROM syscolumns c, systables t '' @ [LF] @
     ''       WHERE c.tabid = t.tabid AND t.tabname = '' @ [CHR 0x27] @ ''customer'' @ [CHR 0x27]
       @ '' '' @ [LF] @
     ''       ORDER BY c.colno''"

section \<open>Evaluation of the examples\<close>

lemmas json_eval = JSON_parse_def lex_step_def json_ws_def punct_def pstep_def scalar_def
  atom_value_def valid_number_def is_digit_def is_hex_def valid_frac_def valid_exp_def

lemma parse_empty_array: "JSON_parse ''[]'' = Some (JArr [])"
  by (simp add: json_eval)

lemma parse_default_outcome: "JSON_parse default_outcome_text = Some no_rows_affected"
  by (simp add: json_eval no_rows_affected_def default_outcome_text_def)

lemma parse_noisy_update: "JSON_parse (trim example_noisy_update) = None"
  by (simp add: json_eval example_noisy_update_def trim_def js_space_def)

lemma parse_noisy_rows: "JSON_parse (trim example_noisy_rows) = None"
  by (simp add: json_eval example_noisy_rows_def trim_def js_space_def)

lemma parse_rows_output: "JSON_parse (trim example_rows_output) = Some example_rows"
  by (simp add: json_eval example_rows_output_def example_rows_def trim_def js_space_def)

lemma trim_noisy_update: "trim example_noisy_update \<noteq> []"
  by (simp add: example_noisy_update_def trim_def js_space_def)

lemma trim_noisy_rows: "trim example_noisy_rows \<noteq> []"
  by (simp add: example_noisy_rows_def trim_def js_space_def)

lemma trim_rows_output: "trim example_rows_output \<noteq> []"
  by (simp add: example_rows_output_def trim_def js_space_def)

section \<open>The outcome of a bridge call\<close>

lemma execute_fst:
  "fst (execute e sql c) =
     (let compile = javac_close e (calls c); run = java_close e (calls c)
      in if exit_code compile \<noteq> Some 0
         then Inl (Error (''Compilation failed: '' @ stderr compile))
         else if exit_code run \<noteq> Some 0 \<or> js_includes (stderr run) ''ERROR:''
         then Inl (Error (or_else (stderr run) ''Execute failed''))
         else (case JSON_parse (or_else (trim (stdout run)) default_outcome_text) of
                 Some v \<Rightarrow> Inr v | None \<Rightarrow> Inr no_rows_affected))"
  by (simp add: execute_def execute_compile_close_def execute_run_close_def execute_start_def
      Let_def split: option.split)

lemma simpleQuery_fst:
  "fst (simpleQuery e sql c) =
     (let compile = javac_close e (calls c); run = java_close e (calls c)
      in if exit_code compile \<noteq> Some 0
         then Inl (Error (''Compilation failed: '' @ stderr compile))
         else if exit_code run \<noteq> Some 0 \<or> js_includes (stderr run) ''ERROR:''
         then Inl (Error (or_else (stderr run) ''Query failed''))
         else (case JSON_parse (or_else (trim (stdout run)) ''[]'') of
                 Some v \<Rightarrow> Inr v | None \<Rightarrow> Inl (Error ''Failed to parse results'')))"
  by (simp add: simpleQuery_def simpleQuery_compile_close_def simpleQuery_run_close_def
      simpleQuery_start_def Let_def split: option.split)

text \<open>
  C1, as the code has it. A write whose compiler and program both exit with 0, whose
  standard error carries no \<^verbatim>\<open>ERROR:\<close>, and whose standard output is not empty and does
  not parse, is not rejected: \<open>execute\<close> resolves with
  \<^verbatim>\<open>{ rowsAffected: 0, success: true }\<close>.
\<close>

theorem execute_unparseable_output_resolves:
  assumes "exit_code (javac_close e (calls c)) = Some 0"
    and "exit_code (java_close e (calls c)) = Some 0"
    and "\<not> js_includes (stderr (java_close e (calls c))) ''ERROR:''"
    and "trim (stdout (java_close e (calls c))) \<noteq> []"
    and "JSON_parse (trim (stdout (java_close e (calls c)))) = None"
  shows "fst (execute e sql c) = Inr no_rows_affected"
  using assms by (simp add: execute_fst or_else_def)

theorem execute_unparseable_output_resolves_witness:
  "fst (execute (example_env (exited 0 [] []) (exited 0 example_noisy_update []))
        ''DELETE FROM orders'' example_connection) = Inr no_rows_affected"
proof -
  let ?e = "example_env (exited 0 [] []) (exited 0 example_noisy_update [])"
  have "exit_code (javac_close ?e (calls example_connection)) = Some 0"
    and "exit_code (java_close ?e (calls example_connection)) = Some 0"
    and "\<not> js_includes (stderr (java_close ?e (calls example_connection))) ''ERROR:''"
    and "trim (stdout (java_close ?e (calls example_connection))) \<noteq> []"
    and "JSON_parse (trim (stdout (java_close ?e (calls example_connection)))) = None"
    by (simp_all add: example_env_def exited_def trim_noisy_update parse_noisy_update)
  then show ?thesis
    by (rule execute_unparseable_output_resolves)
qed

text \<open>
  C1 as stated fails: a program that reported three affected rows after a trace line
  exits with 0, its output does not parse, and \<open>execute\<close> raises nothing.
\<close>

theorem execute_malformed_output_not_rejected:
  "trim example_noisy_update \<noteq> []
   \<and> JSON_parse (trim example_noisy_update) = None
   \<and> fst (execute (example_env (exited 0 [] []) (exited 0 example_noisy_update []))
        ''UPDATE orders SET paid = 1'' example_connection) = Inr no_rows_affected"
  by (simp add: execute_fst example_env_def exited_def or_else_def trim_noisy_update
      parse_noisy_update)

text \<open>
  C2, as the code has it. A read whose compiler and program both exit with 0 and whose
  standard error carries no \<^verbatim>\<open>ERROR:\<close> resolves with the empty array when the standard
  output is empty or white space, and is rejected with \<^verbatim>\<open>Failed to parse results\<close> when
  the output is not empty and does not parse.
\<close>

theorem simpleQuery_decoding:
  assumes "exit_code (javac_close e (calls c)) = Some 0"
    and "exit_code (java_close e (calls c)) = Some 0"
    and "\<not> js_includes (stderr (java_close e (calls c))) ''ERROR:''"
  shows "(trim (stdout (java_close e (calls c))) = [] \<longrightarrow>
            fst (simpleQuery e sql c) = Inr (JArr []))
         \<and> (trim (stdout (java_close e (calls c))) \<noteq> []
              \<and> JSON_parse (trim (stdout (java_close e (calls c)))) = None \<longrightarrow>
            fst (simpleQuery e sql c) = Inl (Error ''Failed to parse results''))"
  using assms by (simp add: simpleQuery_fst or_else_def parse_empty_array)

theorem simpleQuery_decoding_witness:
  "fst (simpleQuery (example_env (exited 0 [] []) (exited 0 [LF] []))
        ''SELECT tabname FROM systables'' example_connection) = Inr (JArr [])
   \<and> fst (simpleQuery (example_env (exited 0 [] []) (exited 0 example_noisy_rows []))
        ''SELECT tabname FROM systables'' example_connection)
       = Inl (Error ''Failed to parse results'')"
proof -
  let ?e1 = "example_env (exited 0 [] []) (exited 0 [LF] [])"
  let ?e2 = "example_env (exited 0 [] []) (exited 0 example_noisy_rows [])"
  let ?c = example_connection
  have a: "exit_code (javac_close ?e1 (calls ?c)) = Some 0"
    "exit_code (java_close ?e1 (calls ?c)) = Some 0"
    "\<not> js_includes (stderr (java_close ?e1 (calls ?c))) ''ERROR:''"
    by (simp_all add: example_env_def exited_def)
  have b: "exit_code (javac_close ?e2 (calls ?c)) = Some 0"
    "exit_code (java_close ?e2 (calls ?c)) = Some 0"
    "\<not> js_includes (stderr (java_close ?e2 (calls ?c))) ''ERROR:''"
    by (simp_all add: example_env_def exited_def)
  have t1: "trim (stdout (java_close ?e1 (calls ?c))) = []"
    by (simp add: example_env_def exited_def trim_def js_space_def)
  have t2: "trim (stdout (java_close ?e2 (calls ?c))) \<noteq> []"
    "JSON_parse (trim (stdout (java_close ?e2 (calls ?c)))) = None"
    by (simp_all add: example_env_def exited_def trim_noisy_rows parse_noisy_rows)
  from simpleQuery_decoding [OF a, of "''SELECT tabname FROM systables''"]
    simpleQuery_decoding [OF b, of "''SELECT tabname FROM systables''"] t1 t2
  show ?thesis by blast
qed

text \<open>
  C2 as stated fails: the rows of a read arrive after a trace line, the program exits
  with 0, and \<open>simpleQuery\<close> raises an error instead of returning no rows.
\<close>

theorem simpleQuery_malformed_output_rejected:
  "trim example_noisy_rows \<noteq> []
   \<and> JSON_parse (trim example_noisy_rows) = None
   \<and> fst (simpleQuery (example_env (exited 0 [] []) (exited 0 example_noisy_rows []))
        ''SELECT tabname FROM systables'' example_connection)
       = Inl (Error ''Failed to parse results'')"
  by (simp add: simpleQuery_fst example_env_def exited_def or_else_def trim_noisy_rows
      parse_noisy_rows)

section \<open>Ephemeral files\<close>

lemma simpleQuery_compile_failure:
  assumes "exit_code (javac_close e (calls c)) \<noteq> Some 0"
  shows "files (snd (simpleQuery e sql c)) (simpleQuery_javaFile e) =
           Some (queryJavaCode (url_text (jdbcUrl c)) (user (cfg e)) (password (cfg e))
                   (escapedSql sql))"
  using assms
  by (simp add: simpleQuery_def simpleQuery_compile_close_def simpleQuery_start_def
      javac_effect_def Let_def)

lemma execute_compile_failure:
  assumes "exit_code (javac_close e (calls c)) \<noteq> Some 0"
  shows "files (snd (execute e sql c)) (execute_javaFile e) =
           Some (executeJavaCode (url_text (jdbcUrl c)) (user (cfg e)) (password (cfg e))
                   (escapedSql sql))"
  using assms
  by (simp add: execute_def execute_compile_close_def execute_start_def
      javac_effect_def Let_def)

lemma path_join_inject [simp]: "path_join d a = path_join d b \<longleftrightarrow> a = b"
  by (simp add: path_join_def)

lemma snd_run_close:
  "snd (simpleQuery_run_close e run c) =
     c\<lparr>files := cleanup (simpleQuery_javaFile e) (simpleQuery_classFile e) (files c)\<rparr>"
  by (simp add: simpleQuery_run_close_def Let_def split: option.split)

lemma snd_execute_run_close:
  "snd (execute_run_close e run c) =
     c\<lparr>files := cleanup (execute_javaFile e) (execute_classFile e) (files c)\<rparr>"
  by (simp add: execute_run_close_def Let_def split: option.split)

lemma cleanup_both:
  "fs j \<noteq> None \<Longrightarrow> cleanup j k fs = fs(j := None, k := None)"
  by (auto simp: cleanup_def unlinkSync_def fun_upd_idem)

lemma simpleQuery_cleans_after_run:
  assumes "exit_code (javac_close e (calls c)) = Some 0"
  shows "files (snd (simpleQuery e sql c)) =
           (files c)(simpleQuery_javaFile e := None, simpleQuery_classFile e := None)"
  using assms
  by (simp add: simpleQuery_def simpleQuery_compile_close_def simpleQuery_start_def
      javac_effect_def Let_def snd_run_close cleanup_both simpleQuery_javaFile_def
      simpleQuery_classFile_def)

lemma execute_cleans_after_run:
  assumes "exit_code (javac_close e (calls c)) = Some 0"
  shows "files (snd (execute e sql c)) =
           (files c)(execute_javaFile e := None, execute_classFile e := None)"
  using assms
  by (simp add: execute_def execute_compile_close_def execute_start_def
      javac_effect_def Let_def snd_execute_run_close cleanup_both execute_javaFile_def
      execute_classFile_def)

text \<open>
  C8. The cleanup is in the handler of the program's \<^verbatim>\<open>close\<close> only. When the compiler
  exits with 1 (here on a statement with a line feed), the call is rejected from the
  compiler's handler and the generated source stays in the temporary directory, for
  \<open>simpleQuery\<close> and for \<open>execute\<close>.
\<close>

theorem compile_failure_leaves_source_file:
  "files (snd (simpleQuery (example_env (exited 1 [] ''error: unclosed string literal'')
                              (exited 0 [] []))
                 (''SELECT tabname'' @ [LF] @ ''FROM systables'') example_connection))
     ''/tmp/InformixQuery.java'' \<noteq> None
   \<and> files (snd (execute (example_env (exited 1 [] ''error: unclosed string literal'')
                              (exited 0 [] []))
                 (''DELETE FROM orders'' @ [LF] @ ''WHERE paid = 1'') example_connection))
     ''/tmp/InformixExecute.java'' \<noteq> None"
proof -
  let ?e = "example_env (exited 1 [] ''error: unclosed string literal'') (exited 0 [] [])"
  have f: "exit_code (javac_close ?e (calls example_connection)) \<noteq> Some 0"
    by (simp add: example_env_def exited_def)
  have p: "simpleQuery_javaFile ?e = ''/tmp/InformixQuery.java''"
    "execute_javaFile ?e = ''/tmp/InformixExecute.java''"
    by (simp_all add: simpleQuery_javaFile_def execute_javaFile_def path_join_def
        example_env_def)
  from simpleQuery_compile_failure [OF f] execute_compile_failure [OF f] p
  show ?thesis by simp
qed

text \<open>
  C7, as the code has it. No call allocates an identifier. Every \<open>simpleQuery\<close> writes
  its source to \<^verbatim>\<open>InformixQuery.java\<close> of the temporary directory and every \<open>execute\<close> to
  \<^verbatim>\<open>InformixExecute.java\<close>, whatever the statement and the call; the class files are
  \<^verbatim>\<open>InformixQuery.class\<close> and \<^verbatim>\<open>InformixExecute.class\<close>. The four paths are pairwise
  distinct, so a read and a write do not share artifacts; two reads do, and two writes.
\<close>

theorem artifact_paths_fixed:
  "dom (files (simpleQuery_start e sql c)) =
     insert (path_join (tmpdir e) ''InformixQuery.java'') (dom (files c))
   \<and> dom (files (execute_start e sql c)) =
     insert (path_join (tmpdir e) ''InformixExecute.java'') (dom (files c))
   \<and> simpleQuery_javaFile e = path_join (tmpdir e) ''InformixQuery.java''
   \<and> simpleQuery_classFile e = path_join (tmpdir e) ''InformixQuery.class''
   \<and> execute_javaFile e = path_join (tmpdir e) ''InformixExecute.java''
   \<and> execute_classFile e = path_join (tmpdir e) ''InformixExecute.class''
   \<and> distinct [simpleQuery_javaFile e, simpleQuery_classFile e, execute_javaFile e,
        execute_classFile e]"
  by (simp add: simpleQuery_start_def execute_start_def simpleQuery_javaFile_def
      simpleQuery_classFile_def execute_javaFile_def execute_classFile_def Let_def)

text \<open>
  C7 as stated fails: when a second read starts while a first one is in flight, the
  temporary directory holds one source file, with the program of the second statement.
\<close>

theorem concurrent_queries_share_source_file:
  "files (simpleQuery_start (example_env (exited 0 [] []) (exited 0 [] []))
            ''SELECT tabname FROM systables''
            (simpleQuery_start (example_env (exited 0 [] []) (exited 0 [] []))
               ''SELECT colname FROM syscolumns'' example_connection))
     = [''/tmp/InformixQuery.java'' \<mapsto>
          queryJavaCode (buildJdbcUrl example_config) ''informix'' ''secret''
            (escapedSql ''SELECT tabname FROM systables'')]"
  by (simp add: simpleQuery_start_def simpleQuery_javaFile_def path_join_def example_env_def
      example_connection_def example_config_def url_text_def Let_def)

section \<open>Escaping the statement\<close>

text \<open>
  Both programs hold the escaped statement between two double quotes, as the argument
  of \<^verbatim>\<open>executeQuery\<close> and of \<^verbatim>\<open>executeUpdate\<close>.
\<close>

lemma template_text_line:
  assumes "l \<in> set ls"
  shows "\<exists>pre post. template_text ls = pre @ l @ post"
proof -
  from assms obtain xs ys where "ls = xs @ l # ys"
    by (auto simp: in_set_conv_decomp)
  then have "template_text ls = (LF # concat (map (\<lambda>l. l @ [LF]) xs)) @ l @ (LF # concat (map (\<lambda>l. l @ [LF]) ys))"
    by (simp add: template_text_def)
  then show ?thesis by blast
qed

lemma queryJavaCode_statement:
  "\<exists>pre post. queryJavaCode url usr pwd stmt =
     pre @ ''stmt.executeQuery('' @ [dquote] @ stmt @ [dquote] @ '');'' @ post"
proof -
  let ?l = "''            ResultSet rs = stmt.executeQuery('' @ [dquote] @ stmt @ [dquote] @ '');''"
  have "\<exists>pre post. queryJavaCode url usr pwd stmt = pre @ ?l @ post"
    unfolding queryJavaCode_def by (rule template_text_line) simp
  then obtain pre post where "queryJavaCode url usr pwd stmt = pre @ ?l @ post"
    by blast
  then have "queryJavaCode url usr pwd stmt =
     (pre @ ''            ResultSet rs = '') @ ''stmt.executeQuery('' @ [dquote] @ stmt @ [dquote] @ '');'' @ post"
    by simp
  then show ?thesis by blast
qed

lemma executeJavaCode_statement:
  "\<exists>pre post. executeJavaCode url usr pwd stmt =
     pre @ ''stmt.executeUpdate('' @ [dquote] @ stmt @ [dquote] @ '');'' @ post"
proof -
  let ?l = "''            int rowsAffected = stmt.executeUpdate('' @ [dquote] @ stmt @ [dquote] @ '');''"
  have "\<exists>pre post. executeJavaCode url usr pwd stmt = pre @ ?l @ post"
    unfolding executeJavaCode_def by (rule template_text_line) simp
  then obtain pre post where "executeJavaCode url usr pwd stmt = pre @ ?l @ post"
    by blast
  then have "executeJavaCode url usr pwd stmt =
     (pre @ ''            int rowsAffected = '') @ ''stmt.executeUpdate('' @ [dquote] @ stmt @ [dquote] @ '');'' @ post"
    by simp
  then show ?thesis by blast
qed

lemma escapedSql_Nil: "escapedSql [] = []"
  by (simp add: escapedSql_def)

lemma replace_all_append:
  "replace_all c r (xs @ ys) = replace_all c r xs @ replace_all c r ys"
  by (induction xs) simp_all

lemma escapedSql_Cons:
  "escapedSql (x # xs) =
     (if x = backslash then [backslash, backslash]
      else if x = dquote then [backslash, dquote] else [x]) @ escapedSql xs"
  by (simp add: escapedSql_def replace_all_append)

text \<open>No backslash of the escaped statement starts a Unicode escape.\<close>

lemma java_unicode_escapedSql:
  "java_unicode False (escapedSql sql) = Some (map of_char (escapedSql sql))"
  by (induction sql) (simp_all add: escapedSql_Nil escapedSql_Cons)

lemma of_char_eq_92: "(of_char c = (92::nat)) = (c = backslash)"
  using of_char_eq_iff [of c backslash, where ?'a = nat] by simp

lemma of_char_eq_34: "(of_char c = (34::nat)) = (c = dquote)"
  using of_char_eq_iff [of c dquote, where ?'a = nat] by simp

lemma of_char_eq_10: "(of_char c = (10::nat)) = (c = LF)"
  using of_char_eq_iff [of c LF, where ?'a = nat] by simp

lemma of_char_eq_13: "(of_char c = (13::nat)) = (c = CR)"
  using of_char_eq_iff [of c CR, where ?'a = nat] by simp

lemma java_string_chars_escapedSql:
  "LF \<notin> set sql \<Longrightarrow> CR \<notin> set sql \<Longrightarrow>
   java_string_chars (map of_char (escapedSql sql)) = Some (map of_char sql)"
  by (induction sql)
     (auto simp: escapedSql_Nil escapedSql_Cons of_char_eq_92 of_char_eq_34 of_char_eq_10
       of_char_eq_13 octal_def simple_escape_def)

text \<open>
  What the escaping achieves: for every statement without a line feed or a carriage
  return, the escaped text (backslashes doubled first, then double quotes escaped) is
  the body of one Java string literal, and the literal denotes the statement itself: a
  backslash or a quote of the statement neither ends the literal nor is escaped twice.
\<close>

lemma escapedSql_java_literal:
  assumes "LF \<notin> set sql" and "CR \<notin> set sql"
  shows "java_string_literal (escapedSql sql) = Some (map of_char sql)"
  using assms
  by (simp add: java_string_literal_def java_unicode_escapedSql java_string_chars_escapedSql)

lemma escapedSql_java_literal_example:
  "escapedSql (''SELECT '' @ [dquote] @ ''C:'' @ [backslash] @ ''u0041'' @ [dquote] @ '' FROM t'')
     = ''SELECT '' @ [backslash, dquote] @ ''C:'' @ [backslash, backslash] @ ''u0041''
         @ [backslash, dquote] @ '' FROM t''
   \<and> java_string_literal
       (escapedSql (''SELECT '' @ [dquote] @ ''C:'' @ [backslash] @ ''u0041'' @ [dquote] @ '' FROM t''))
     = Some (map of_char (''SELECT '' @ [dquote] @ ''C:'' @ [backslash] @ ''u0041'' @ [dquote] @ '' FROM t''))"
proof -
  let ?sql = "''SELECT '' @ [dquote] @ ''C:'' @ [backslash] @ ''u0041'' @ [dquote] @ '' FROM t''"
  have "LF \<notin> set ?sql" and "CR \<notin> set ?sql"
    by simp_all
  from escapedSql_java_literal [OF this] have
    "java_string_literal (escapedSql ?sql) = Some (map of_char ?sql)" .
  moreover have "escapedSql ?sql
     = ''SELECT '' @ [backslash, dquote] @ ''C:'' @ [backslash, backslash] @ ''u0041''
         @ [backslash, dquote] @ '' FROM t''"
    by (simp add: escapedSql_def)
  ultimately show ?thesis
    by blast
qed

text \<open>
  What it misses: a line feed or a carriage return of the statement is copied into the
  program as it is, and a Java string literal cannot contain a line terminator.
\<close>

lemma java_string_chars_line_terminator:
  "LF \<in> set sql \<or> CR \<in> set sql \<Longrightarrow> java_string_chars (map of_char (escapedSql sql)) = None"
  by (induction sql)
     (auto simp: escapedSql_Nil escapedSql_Cons of_char_eq_92 of_char_eq_34 of_char_eq_10
       of_char_eq_13 octal_def simple_escape_def)

lemma escapedSql_line_terminator:
  "LF \<in> set sql \<or> CR \<in> set sql \<Longrightarrow> java_string_literal (escapedSql sql) = None"
  by (simp add: java_string_literal_def java_unicode_escapedSql java_string_chars_line_terminator)

lemma simpleQuery_start_source:
  "files (simpleQuery_start e sql c) (simpleQuery_javaFile e) =
     Some (queryJavaCode (url_text (jdbcUrl c)) (user (cfg e)) (password (cfg e))
             (escapedSql sql))"
  by (simp add: simpleQuery_start_def Let_def)

lemma execute_start_source:
  "files (execute_start e sql c) (execute_javaFile e) =
     Some (executeJavaCode (url_text (jdbcUrl c)) (user (cfg e)) (password (cfg e))
             (escapedSql sql))"
  by (simp add: execute_start_def Let_def)

text \<open>
  C9. The columns route sends a statement of four lines to \<open>query\<close>, which hands it to
  \<open>simpleQuery\<close>. The source file that \<open>simpleQuery\<close> writes holds the escaped statement
  between two double quotes as the argument of \<^verbatim>\<open>executeQuery\<close>, and the escaped
  statement is not the body of a Java string literal: its line feeds are not escaped,
  so the program does not compile.
\<close>

theorem columns_statement_not_a_string_literal:
  "(\<exists>pre post.
      files (simpleQuery_start (example_env (exited 1 [] ''error: unclosed string literal'')
                                  (exited 0 [] []))
               example_columns_statement example_connection)
        (simpleQuery_javaFile (example_env (exited 1 [] ''error: unclosed string literal'')
                                  (exited 0 [] [])))
      = Some (pre @ ''stmt.executeQuery('' @ [dquote] @ escapedSql example_columns_statement
                @ [dquote] @ '');'' @ post))
   \<and> escapedSql example_columns_statement = example_columns_statement
   \<and> java_string_literal (escapedSql example_columns_statement) = None"
proof -
  have "LF \<in> set example_columns_statement \<or> CR \<in> set example_columns_statement"
    by (simp add: example_columns_statement_def)
  then have n: "java_string_literal (escapedSql example_columns_statement) = None"
    by (rule escapedSql_line_terminator)
  have e: "escapedSql example_columns_statement = example_columns_statement"
    by (simp add: escapedSql_def example_columns_statement_def)
  show ?thesis
    using queryJavaCode_statement n e by (simp add: simpleQuery_start_source)
qed

section \<open>The cache\<close>

text \<open>
  C6. A lookup of a cached key returns \<^verbatim>\<open>null\<close> once the time since the entry's
  timestamp has reached the cache timeout, and that same lookup removes the entry and
  nothing else from the map; an entry younger than the timeout is returned as stored
  and the service is unchanged.
\<close>

theorem getFromCache_lazy_expiry:
  assumes "cache s key = Some en"
  shows "(cacheTimeout s \<le> now - timestamp en \<longrightarrow>
            fst (getFromCache key now s) = JNull
            \<and> cache (snd (getFromCache key now s)) = (cache s)(key := None))
         \<and> (now - timestamp en < cacheTimeout s \<longrightarrow>
            getFromCache key now s = (data en, s))"
  using assms by (simp add: getFromCache_def)

theorem getFromCache_lazy_expiry_witness:
  "fst (getFromCache ''Q:[]'' 60000 example_cached) = JNull
   \<and> cache (snd (getFromCache ''Q:[]'' 60000 example_cached)) = Map.empty
   \<and> getFromCache ''Q:[]'' 59999 example_cached = (example_rows, example_cached)"
proof -
  let ?en = "\<lparr>data = example_rows, timestamp = 0\<rparr>"
  have c: "cache example_cached ''Q:[]'' = Some ?en"
    by (simp add: example_cached_def)
  have t: "cacheTimeout example_cached = 60000"
    by (simp add: example_cached_def example_service_def)
  have m: "(cache example_cached)(''Q:[]'' := None) = Map.empty"
    by (simp add: example_cached_def)
  from getFromCache_lazy_expiry [OF c, of 60000] getFromCache_lazy_expiry [OF c, of 59999] t m
  show ?thesis by simp
qed

section \<open>Queries through the cache\<close>

lemma init_started: "initialized s \<Longrightarrow> init e s = (Inr (), s)"
  by (simp add: init_def)

lemma simpleQuery_calls: "calls (snd (simpleQuery e sql c)) = Suc (calls c)"
  by (simp add: simpleQuery_def simpleQuery_compile_close_def simpleQuery_start_def
      snd_run_close Let_def)

lemma query_cacheTtl_unused:
  "query e sql params (opts\<lparr>cacheTtl := t\<rparr>) tg ts s = query e sql params opts tg ts s"
  by (simp add: query_def Let_def split: prod.split sum.split)

lemma query_hit:
  assumes "initialized s" and "case useCache opts of None \<Rightarrow> True | Some v \<Rightarrow> truthy v"
    and "cache s (getCacheKey sql params) = Some en"
    and "tg - timestamp en < cacheTimeout s" and "truthy (data en)"
  shows "query e sql params opts tg ts s = (Inr (data en, True), s)"
  using assms by (simp add: query_def init_started getFromCache_def Let_def)

lemma getFromCache_miss_state:
  "\<not> truthy (fst (getFromCache key tg s)) \<Longrightarrow>
   setCache key d ts ((snd (getFromCache key tg s))\<lparr>db := c\<rparr>) = setCache key d ts (s\<lparr>db := c\<rparr>)"
  by (auto simp: getFromCache_def setCache_def split: option.splits if_splits)

lemma query_miss:
  assumes "initialized s" and "case useCache opts of None \<Rightarrow> True | Some v \<Rightarrow> truthy v"
    and "\<not> truthy (fst (getFromCache (getCacheKey sql params) tg s))"
    and "simpleQuery e sql (db s) = (Inr d, c)"
  shows "query e sql params opts tg ts s =
           (Inr (d, False), setCache (getCacheKey sql params) d ts (s\<lparr>db := c\<rparr>))"
proof -
  let ?k = "getCacheKey sql params"
  obtain v s' where g: "getFromCache ?k tg s = (v, s')"
    by (cases "getFromCache ?k tg s")
  have d: "db s' = db s"
    using g by (auto simp: getFromCache_def split: option.splits if_splits)
  from assms(3) g have nv: "\<not> truthy v" by simp
  from getFromCache_miss_state [OF assms(3), of d ts c] g
  have st: "setCache ?k d ts (s'\<lparr>db := c\<rparr>) = setCache ?k d ts (s\<lparr>db := c\<rparr>)" by simp
  show ?thesis
    using assms(1,2,4) g nv d st
    by (simp add: query_def init_started query_bridge_def Let_def)
qed

lemma queries_hits:
  assumes "initialized s" and "case useCache opts of None \<Rightarrow> True | Some v \<Rightarrow> truthy v"
    and "cache s (getCacheKey sql params) = Some en" and "truthy (data en)"
    and "list_all (\<lambda>p. fst p - timestamp en < cacheTimeout s) rest"
  shows "queries e sql params opts rest s = (map (\<lambda>p. Inr (data en, True)) rest, s)"
  using assms(5)
proof (induction rest)
  case Nil
  show ?case by simp
next
  case (Cons p rest)
  obtain tg ts where p: "p = (tg, ts)" by (cases p)
  from Cons.prems p have "tg - timestamp en < cacheTimeout s" by simp
  from query_hit [OF assms(1-3) this assms(4)]
  have "query e sql params opts tg ts s = (Inr (data en, True), s)" .
  moreover from Cons have "queries e sql params opts rest s = (map (\<lambda>p. Inr (data en, True)) rest, s)"
    by simp
  ultimately show ?case using p by simp
qed

text \<open>
  C5. On a started service with caching enabled, let the first of N identical queries
  miss the cache and the bridge answer it with rows, stored at time \<open>ts\<close>. If each of
  the other calls reads the cache less than the cache timeout after \<open>ts\<close>, then the
  bridge is called once in all (its call counter goes up by one), the first call
  returns the rows with \<^verbatim>\<open>fromCache\<close> false, and each of the N - 1 others returns the
  stored rows with \<^verbatim>\<open>fromCache\<close> true.
\<close>

theorem repeated_query_single_bridge_call:
  assumes "initialized s"
    and "case useCache opts of None \<Rightarrow> True | Some v \<Rightarrow> truthy v"
    and "\<not> truthy (fst (getFromCache (getCacheKey sql params) tg s))"
    and "simpleQuery e sql (db s) = (Inr (JArr rows), c)"
    and "list_all (\<lambda>p. fst p - ts < cacheTimeout s) rest"
  shows "queries e sql params opts ((tg, ts) # rest) s =
           (Inr (JArr rows, False) # map (\<lambda>p. Inr (JArr rows, True)) rest,
            setCache (getCacheKey sql params) (JArr rows) ts (s\<lparr>db := c\<rparr>))
         \<and> calls c = Suc (calls (db s))"
proof -
  let ?k = "getCacheKey sql params"
  let ?s1 = "setCache ?k (JArr rows) ts (s\<lparr>db := c\<rparr>)"
  let ?en = "\<lparr>data = JArr rows, timestamp = ts\<rparr>"
  have first: "query e sql params opts tg ts s = (Inr (JArr rows, False), ?s1)"
    by (rule query_miss [OF assms(1-4)])
  have i: "initialized ?s1" and t: "cacheTimeout ?s1 = cacheTimeout s"
    and k: "cache ?s1 ?k = Some ?en"
    using assms(1) by (simp_all add: setCache_def)
  have w: "list_all (\<lambda>p. fst p - timestamp ?en < cacheTimeout ?s1) rest"
    using assms(5) t by simp
  have "truthy (data ?en)" by simp
  from queries_hits [OF i assms(2) k this w]
  have later: "queries e sql params opts rest ?s1 = (map (\<lambda>p. Inr (JArr rows, True)) rest, ?s1)"
    by simp
  have "calls c = Suc (calls (db s))"
    using simpleQuery_calls [of e sql "db s"] assms(4) by simp
  with first later show ?thesis by simp
qed



lemma key_Q: "getCacheKey ''Q'' (JArr []) = ''Q:[]''"
  by (simp add: getCacheKey_def)

lemma example_service_fields:
  "initialized example_service" "cacheTimeout example_service = 60000"
  "cache example_service = Map.empty" "db example_service = example_connection"
  by (simp_all add: example_service_def)

lemma example_cached_fields:
  "initialized example_cached" "cacheTimeout example_cached = 60000"
  "cache example_cached ''Q:[]'' = Some \<lparr>data = example_rows, timestamp = 0\<rparr>"
  "db example_cached = example_connection"
  by (simp_all add: example_cached_def example_service_def)

lemma simpleQuery_rows_example:
  "fst (simpleQuery (example_env (exited 0 [] []) (exited 0 example_rows_output [])) sql
          example_connection) = Inr example_rows"
  by (simp add: simpleQuery_fst example_env_def exited_def or_else_def trim_rows_output
      parse_rows_output)

theorem repeated_query_single_bridge_call_witness:
  "fst (queries (example_env (exited 0 [] []) (exited 0 example_rows_output [])) ''Q'' (JArr [])
          \<lparr>useCache = None, cacheTtl = None\<rparr> [(0, 40), (500, 540), (60039, 60079)]
          example_service)
     = [Inr (example_rows, False), Inr (example_rows, True), Inr (example_rows, True)]
   \<and> calls (db (snd (queries (example_env (exited 0 [] []) (exited 0 example_rows_output []))
          ''Q'' (JArr []) \<lparr>useCache = None, cacheTtl = None\<rparr>
          [(0, 40), (500, 540), (60039, 60079)] example_service))) = 1"
proof -
  let ?e = "example_env (exited 0 [] []) (exited 0 example_rows_output [])"
  let ?o = "\<lparr>useCache = None, cacheTtl = None\<rparr>"
  let ?c = "snd (simpleQuery ?e ''Q'' (db example_service))"
  have a: "initialized example_service"
    by (simp add: example_service_fields)
  have b: "case useCache ?o of None \<Rightarrow> True | Some v \<Rightarrow> truthy v"
    by simp
  have m: "\<not> truthy (fst (getFromCache (getCacheKey ''Q'' (JArr [])) 0 example_service))"
    by (simp add: getFromCache_def example_service_fields)
  have q: "simpleQuery ?e ''Q'' (db example_service)
             = (Inr (JArr [JObj [(''tabname'', JStr ''customer'')]]), ?c)"
    using simpleQuery_rows_example [of "''Q''"]
    by (simp add: example_service_fields example_rows_def prod_eq_iff)
  have w: "list_all (\<lambda>p. fst p - 40 < cacheTimeout example_service)
             [(500, 540), (60039, 60079)]"
    by (simp add: example_service_fields)
  from repeated_query_single_bridge_call [OF a b m q w]
  show ?thesis
    by (simp add: example_rows_def example_service_fields example_connection_def setCache_def
        del: queries.simps)
qed


lemma simpleQuery_no_rows:
  assumes "exit_code (javac_close e (calls c)) = Some 0"
    and "exit_code (java_close e (calls c)) = Some 0"
    and "\<not> js_includes (stderr (java_close e (calls c))) ''ERROR:''"
    and "trim (stdout (java_close e (calls c))) = ''[]''"
  shows "fst (simpleQuery e sql c) = Inr (JArr [])"
  using assms by (simp add: simpleQuery_fst or_else_def parse_empty_array)

text \<open>
  C10. When a query on a started service with caching enabled misses the cache and the
  program prints the empty array, the query returns the empty array with
  \<^verbatim>\<open>fromCache\<close> false and stores it; the same query, reading the cache less than the
  cache timeout after the store, returns the empty array with \<^verbatim>\<open>fromCache\<close> true and
  leaves the service as it is, so the bridge is not called again.
\<close>

theorem empty_result_served_from_cache:
  assumes "initialized s"
    and "case useCache opts of None \<Rightarrow> True | Some v \<Rightarrow> truthy v"
    and "\<not> truthy (fst (getFromCache (getCacheKey sql params) tg s))"
    and "exit_code (javac_close e (calls (db s))) = Some 0"
    and "exit_code (java_close e (calls (db s))) = Some 0"
    and "\<not> js_includes (stderr (java_close e (calls (db s)))) ''ERROR:''"
    and "trim (stdout (java_close e (calls (db s)))) = ''[]''"
    and "tg' - ts < cacheTimeout s"
  shows "fst (query e sql params opts tg ts s) = Inr (JArr [], False)
         \<and> cache (snd (query e sql params opts tg ts s)) (getCacheKey sql params)
             = Some \<lparr>data = JArr [], timestamp = ts\<rparr>
         \<and> query e sql params opts tg' ts' (snd (query e sql params opts tg ts s))
             = (Inr (JArr [], True), snd (query e sql params opts tg ts s))"
proof -
  let ?k = "getCacheKey sql params"
  let ?c = "snd (simpleQuery e sql (db s))"
  let ?s1 = "setCache ?k (JArr []) ts (s\<lparr>db := ?c\<rparr>)"
  let ?en = "\<lparr>data = JArr [], timestamp = ts\<rparr>"
  have "simpleQuery e sql (db s) = (Inr (JArr []), ?c)"
    using simpleQuery_no_rows [OF assms(4-7), of sql] by (simp add: prod_eq_iff)
  from query_miss [OF assms(1-3) this]
  have first: "query e sql params opts tg ts s = (Inr (JArr [], False), ?s1)" .
  have i: "initialized ?s1" and k: "cache ?s1 ?k = Some ?en"
    and w: "tg' - timestamp ?en < cacheTimeout ?s1"
    using assms(1,8) by (simp_all add: setCache_def)
  have "truthy (data ?en)" by simp
  from query_hit [OF i assms(2) k w this]
  have "query e sql params opts tg' ts' ?s1 = (Inr (JArr [], True), ?s1)"
    by simp
  with first k show ?thesis by simp
qed

theorem empty_result_served_from_cache_witness:
  "fst (query (example_env (exited 0 [] []) (exited 0 (''[]'' @ [LF]) [])) ''Q'' (JArr [])
          \<lparr>useCache = Some (JBool True), cacheTtl = None\<rparr> 0 40 example_service)
     = Inr (JArr [], False)
   \<and> fst (query (example_env (exited 0 [] []) (exited 0 (''[]'' @ [LF]) [])) ''Q'' (JArr [])
          \<lparr>useCache = Some (JBool True), cacheTtl = None\<rparr> 500 540
          (snd (query (example_env (exited 0 [] []) (exited 0 (''[]'' @ [LF]) [])) ''Q''
             (JArr []) \<lparr>useCache = Some (JBool True), cacheTtl = None\<rparr> 0 40
             example_service)))
     = Inr (JArr [], True)"
proof -
  let ?e = "example_env (exited 0 [] []) (exited 0 (''[]'' @ [LF]) [])"
  let ?o = "\<lparr>useCache = Some (JBool True), cacheTtl = None\<rparr>"
  have a: "initialized example_service"
    by (simp add: example_service_fields)
  have b: "case useCache ?o of None \<Rightarrow> True | Some v \<Rightarrow> truthy v"
    by simp
  have m: "\<not> truthy (fst (getFromCache (getCacheKey ''Q'' (JArr [])) 0 example_service))"
    by (simp add: getFromCache_def example_service_fields)
  have p: "exit_code (javac_close ?e (calls (db example_service))) = Some 0"
    "exit_code (java_close ?e (calls (db example_service))) = Some 0"
    "\<not> js_includes (stderr (java_close ?e (calls (db example_service)))) ''ERROR:''"
    "trim (stdout (java_close ?e (calls (db example_service)))) = ''[]''"
    by (simp_all add: example_env_def exited_def trim_def js_space_def)
  have w: "500 - 40 < cacheTimeout example_service"
    by (simp add: example_service_fields)
  from empty_result_served_from_cache [OF a b m p w, where ?ts' = 540]
  show ?thesis by simp
qed

text \<open>
  C3. \<open>query\<close> binds \<^verbatim>\<open>cacheTtl\<close> and never reads it: the lookup compares the age with
  the cache timeout of the service (60000 here). An entry of age 500 is served to a
  call with \<^verbatim>\<open>cacheTtl\<close> 100, and an entry of age 90000 is not served to a call with
  \<^verbatim>\<open>cacheTtl\<close> 120000.
\<close>

theorem query_serves_past_cacheTtl:
  "query (example_env (exited 0 [] []) (exited 0 example_rows_output [])) ''Q'' (JArr [])
     \<lparr>useCache = Some (JBool True), cacheTtl = Some 100\<rparr> 500 540 example_cached
     = (Inr (example_rows, True), example_cached)
   \<and> fst (query (example_env (exited 0 [] []) (exited 0 example_rows_output [])) ''Q'' (JArr [])
          \<lparr>useCache = Some (JBool True), cacheTtl = Some 120000\<rparr> 90000 90040 example_cached)
     = Inr (example_rows, False)"
proof -
  let ?e = "example_env (exited 0 [] []) (exited 0 example_rows_output [])"
  let ?en = "\<lparr>data = example_rows, timestamp = 0\<rparr>"
  have b: "case useCache \<lparr>useCache = Some (JBool True), cacheTtl = Some 100\<rparr> of
             None \<Rightarrow> True | Some v \<Rightarrow> truthy v"
    and b': "case useCache \<lparr>useCache = Some (JBool True), cacheTtl = Some 120000\<rparr> of
             None \<Rightarrow> True | Some v \<Rightarrow> truthy v"
    by simp_all
  have k: "cache example_cached (getCacheKey ''Q'' (JArr [])) = Some ?en"
    by (simp add: key_Q example_cached_fields)
  have "500 - timestamp ?en < cacheTimeout example_cached" and "truthy (data ?en)"
    by (simp_all add: example_cached_fields example_rows_def)
  from query_hit [OF example_cached_fields(1) b k this]
  have hit: "query ?e ''Q'' (JArr []) \<lparr>useCache = Some (JBool True), cacheTtl = Some 100\<rparr>
               500 540 example_cached = (Inr (example_rows, True), example_cached)"
    by simp
  have m: "\<not> truthy (fst (getFromCache (getCacheKey ''Q'' (JArr [])) 90000 example_cached))"
    by (simp add: getFromCache_def key_Q example_cached_fields)
  have "simpleQuery ?e ''Q'' (db example_cached)
          = (Inr example_rows, snd (simpleQuery ?e ''Q'' (db example_cached)))"
    using simpleQuery_rows_example [of "''Q''"]
    by (simp add: example_cached_fields prod_eq_iff)
  from query_miss [OF example_cached_fields(1) b' m this]
  have "fst (query ?e ''Q'' (JArr []) \<lparr>useCache = Some (JBool True), cacheTtl = Some 120000\<rparr>
               90000 90040 example_cached) = Inr (example_rows, False)"
    by simp
  with hit show ?thesis by simp
qed


section \<open>Writes through the service\<close>


lemma clearCache_all: "cache (clearCache None s) = Map.empty"
  by (simp add: clearCache_def)

text \<open>
  C4, as the code has it. Every call of the service's \<open>execute\<close> that returns an outcome
  has delegated the statement to the bridge, returns the bridge's result wrapped as
  \<^verbatim>\<open>{ success: true, result }\<close>, and leaves the cache empty whatever the statement, so
  that a lookup of any key at any time misses.
\<close>

theorem execute_success_clears_cache:
  assumes "DatabaseService_execute e sql s = (Inr r, s')"
  shows "cache s' = Map.empty
         \<and> fst (getFromCache key now s') = JNull
         \<and> (\<exists>res. fst (execute e sql (db (snd (init e s)))) = Inr res
                \<and> r = JObj [(''success'', JBool True), (''result'', res)])"
proof -
  obtain u s1 where i: "init e s = (Inr u, s1)"
    using assms by (auto simp: DatabaseService_execute_def split: prod.splits sum.splits)
  obtain res c where x: "execute e sql (db s1) = (Inr res, c)"
    using assms i by (auto simp: DatabaseService_execute_def split: prod.splits sum.splits)
  from assms i x have r: "r = JObj [(''success'', JBool True), (''result'', res)]"
    and s': "s' = clearCache None (s1\<lparr>db := c\<rparr>)"
    by (simp_all add: DatabaseService_execute_def)
  from s' have "cache s' = Map.empty"
    by (simp add: clearCache_all)
  then show ?thesis
    using r i x by (simp add: getFromCache_def)
qed

lemma DatabaseService_execute_started:
  "initialized s \<Longrightarrow>
   DatabaseService_execute e sql s =
     (case fst (execute e sql (db s)) of
        Inr result \<Rightarrow>
          (Inr (JObj [(''success'', JBool True), (''result'', result)]),
           clearCache None (s\<lparr>db := snd (execute e sql (db s))\<rparr>))
      | Inl err \<Rightarrow>
          (Inl (ServiceError ''Execute failed'' (message err) ''EXECUTE_ERROR''),
           s\<lparr>db := snd (execute e sql (db s))\<rparr>))"
  by (cases "execute e sql (db s)")
     (simp add: DatabaseService_execute_def init_started split: sum.split)

lemma execute_outcome_example:
  "fst (execute (example_env (exited 0 [] []) (exited 0 [] [])) sql example_connection)
     = Inr no_rows_affected"
  by (simp add: execute_fst example_env_def exited_def or_else_def trim_def
      parse_default_outcome)

theorem execute_success_clears_cache_witness:
  "fst (DatabaseService_execute (example_env (exited 0 [] []) (exited 0 [] []))
          ''DELETE FROM orders'' example_cached)
     = Inr (JObj [(''success'', JBool True), (''result'', no_rows_affected)])
   \<and> cache (snd (DatabaseService_execute (example_env (exited 0 [] []) (exited 0 [] []))
          ''DELETE FROM orders'' example_cached)) = Map.empty
   \<and> fst (getFromCache ''Q:[]'' 500
        (snd (DatabaseService_execute (example_env (exited 0 [] []) (exited 0 [] []))
          ''DELETE FROM orders'' example_cached))) = JNull"
proof -
  let ?e = "example_env (exited 0 [] []) (exited 0 [] [])"
  let ?r = "JObj [(''success'', JBool True), (''result'', no_rows_affected)]"
  let ?x = "DatabaseService_execute ?e ''DELETE FROM orders'' example_cached"
  have f: "fst ?x = Inr ?r"
    using execute_outcome_example [of "''DELETE FROM orders''"]
    by (simp add: DatabaseService_execute_started example_cached_fields)
  then have "?x = (Inr ?r, snd ?x)"
    by (simp add: prod_eq_iff)
  from execute_success_clears_cache [OF this, of "''Q:[]''" 500] f
  show ?thesis by simp
qed

text \<open>
  C4 as stated fails for a call that the bridge rejects: the error is wrapped and
  thrown before the cache is cleared, and the row cached for \<^verbatim>\<open>Q\<close> is still served.
\<close>

theorem failed_execute_keeps_cache:
  "fst (DatabaseService_execute
          (example_env (exited 0 [] []) (exited 1 [] ''ERROR: Table not found''))
          ''DELETE FROM ordrs'' example_cached)
     = Inl (ServiceError ''Execute failed'' ''ERROR: Table not found'' ''EXECUTE_ERROR'')
   \<and> cache (snd (DatabaseService_execute
          (example_env (exited 0 [] []) (exited 1 [] ''ERROR: Table not found''))
          ''DELETE FROM ordrs'' example_cached)) ''Q:[]''
     = Some \<lparr>data = example_rows, timestamp = 0\<rparr>
   \<and> fst (getFromCache ''Q:[]'' 500 (snd (DatabaseService_execute
          (example_env (exited 0 [] []) (exited 1 [] ''ERROR: Table not found''))
          ''DELETE FROM ordrs'' example_cached))) = example_rows"
proof -
  let ?e = "example_env (exited 0 [] []) (exited 1 [] ''ERROR: Table not found'')"
  have "fst (execute ?e ''DELETE FROM ordrs'' example_connection)
          = Inl (Error ''ERROR: Table not found'')"
    by (simp add: execute_fst example_env_def exited_def or_else_def)
  then show ?thesis
    by (simp add: DatabaseService_execute_started example_cached_fields getFromCache_def)
qed

end
